theory Spec2Isabelle
  imports Main "HOL-Library.Word"
begin

section \<open>Tile types (tile\_types.py)\<close>

text \<open>
  \<^verbatim>\<open>graphic_dt\<close> is a numpy structured type: a 32-bit character code and two colours of
  three bytes each. \<^verbatim>\<open>tile_dt\<close> holds the two flags and the two graphics of a tile.
\<close>

type_synonym rgb = "8 word \<times> 8 word \<times> 8 word"

record graphic =
  ch :: "32 word"
  fg :: rgb
  bg :: rgb

record tile =
  walkable :: bool
  transparent :: bool
  dark :: graphic
  light :: graphic

text \<open>
  A Python int that does not fit the field raises \<^verbatim>\<open>OverflowError\<close> when numpy builds the
  array: a colour component is an unsigned byte, the character code a signed 32-bit int.
\<close>

datatype conversion_error = OverflowError

definition rgb_of :: "int \<times> int \<times> int \<Rightarrow> conversion_error + rgb" where
  "rgb_of c =
     (case c of (r, g, b) \<Rightarrow>
        if 0 \<le> r \<and> r \<le> 255 \<and> 0 \<le> g \<and> g \<le> 255 \<and> 0 \<le> b \<and> b \<le> 255
        then Inr (word_of_int r, word_of_int g, word_of_int b)
        else Inl OverflowError)"

definition graphic_of ::
  "int \<times> (int \<times> int \<times> int) \<times> (int \<times> int \<times> int) \<Rightarrow> conversion_error + graphic" where
  "graphic_of t =
     (case t of (c, f, b) \<Rightarrow>
        if - (2 ^ 31) \<le> c \<and> c < 2 ^ 31 then
          (case rgb_of f of
             Inl e \<Rightarrow> Inl e
           | Inr f' \<Rightarrow>
               (case rgb_of b of
                  Inl e \<Rightarrow> Inl e
                | Inr b' \<Rightarrow> Inr \<lparr>ch = word_of_int c, fg = f', bg = b'\<rparr>))
        else Inl OverflowError)"

text \<open>
  \<^verbatim>\<open>new_tile\<close> takes the two flags as Python ints (\<^verbatim>\<open>True\<close> is 1, \<^verbatim>\<open>False\<close> is 0);
  the conversion to \<^verbatim>\<open>np.bool\<close> is "non-zero".
\<close>

definition new_tile ::
  "int \<Rightarrow> int \<Rightarrow> int \<times> (int \<times> int \<times> int) \<times> (int \<times> int \<times> int)
     \<Rightarrow> int \<times> (int \<times> int \<times> int) \<times> (int \<times> int \<times> int) \<Rightarrow> conversion_error + tile" where
  "new_tile w t d l =
     (case graphic_of d of
        Inl e \<Rightarrow> Inl e
      | Inr d' \<Rightarrow>
          (case graphic_of l of
             Inl e \<Rightarrow> Inl e
           | Inr l' \<Rightarrow>
               Inr \<lparr>walkable = (w \<noteq> 0), transparent = (t \<noteq> 0), dark = d', light = l'\<rparr>))"

text \<open>
  The module builds its constants when it is loaded; each conversion below succeeds
  (\<open>tile_constants\<close>), so the constant is the value built.
\<close>

definition SHROUD :: graphic where
  "SHROUD = projr (graphic_of (32, (255, 255, 255), (0, 0, 0)))"

definition floor_dark :: "int \<times> int \<times> int" where
  "floor_dark = (46, 46, 35)"

definition floor_light :: "int \<times> int \<times> int" where
  "floor_light = (173, 159, 64)"

text \<open>The tile is called \<^verbatim>\<open>floor\<close> in the source; that name is taken in HOL.\<close>

definition floor_tile :: tile where
  "floor_tile = projr (new_tile 1 1 (32, (255, 255, 255), floor_dark) (32, (255, 255, 255), floor_light))"

definition wall :: tile where
  "wall = projr (new_tile 0 0 (9617, (0, 0, 0), (36, 35, 27)) (9617, (0, 0, 0), (94, 82, 44)))"

definition down_stairs :: tile where
  "down_stairs = projr (new_tile 1 1 (62, (255, 255, 255), floor_dark) (62, (255, 255, 255), floor_light))"

section \<open>The objects the actions work on\<close>

text \<open>
  Python objects are shared and mutated in place, so an actor or an item is a reference into
  a heap of the engine, and two references may be the same object. The classes themselves
  (entity.py, the components, game\_map.py, engine.py) are not among the sources; the
  records hold the attributes that actions.py reads and writes, typed as its annotations
  and the specification's data model give them.
\<close>

type_synonym ref = nat

datatype error = Impossible string | AttributeError | IndexError

text \<open>
  Modelled from the spec: the equipment categories of equipment\_types.py. The source names
  \<^verbatim>\<open>EquipmentType.ARMOR\<close> only, the specification speaks of armor and of non-armor
  categories; the category that is not armor is called \<open>WEAPON\<close> here.
\<close>

datatype EquipmentType = WEAPON | ARMOR

text \<open>
  Modelled from the spec: the style tags of color.py that the actions pass to the message
  log; \<open>default_fg\<close> stands for the style of a message added without one.
\<close>

datatype color = default_fg | invalid | descend | player_atk | enemy_atk

record entity =
  ent_x :: int
  ent_y :: int
  ent_name :: string
  blocks_movement :: bool

text \<open>
  Modelled from the spec: the fighter component, "fighter stats (current hit points, power,
  defense)", each a plain integer attribute.
\<close>

record fighter =
  hp :: int
  power_attr :: int
  defense :: int

record inventory =
  capacity :: int
  inv_items :: "ref list"

record equippable =
  equipment_type :: EquipmentType

datatype parent = ParentGameMap | ParentInventory ref

text \<open>
  Modelled from the spec: the equipment component is a "mapping of equipment slot to Item or
  empty", with one slot for each category.
\<close>

record actor = entity +
  fighter :: fighter
  inventory :: inventory
  equipment :: "EquipmentType \<Rightarrow> ref option"

text \<open>A consumable is known to the actions only as something to activate; it is a number here.\<close>

record item = entity +
  parent :: parent
  consumable :: "nat option"
  equippable :: "equippable option"

datatype eref = ActorRef ref | ItemRef ref

text \<open>
  The entity collection of the map is kept as a list, in its iteration order. The tile array
  is indexed \<^verbatim>\<open>tiles[x, y]\<close>: a list of columns.
\<close>

record game_map =
  width :: int
  height :: int
  tiles :: "tile list list"
  entities :: "eref list"
  downstairs_location :: "int \<times> int"
  upstairs_location :: "int \<times> int"

record 'gw engine =
  game_map :: game_map
  game_world :: 'gw
  message_log :: "(string \<times> color) list"
  player :: ref
  actor_heap :: "ref \<Rightarrow> actor"
  item_heap :: "ref \<Rightarrow> item"

text \<open>
  An action either returns or raises; the engine it leaves behind is part of the result in
  both cases, so that a mutation made before a raise stays visible.
\<close>

type_synonym 'gw outcome = "(error + unit) \<times> 'gw engine"

section \<open>What the actions call\<close>

subsection \<open>The game map\<close>

text \<open>
  Modelled from the spec: \<^verbatim>\<open>GameMap.in_bounds\<close>, the bounds check of the World Query
  interface, on a map of \<open>width\<close> by \<open>height\<close> tiles.
\<close>

definition in_bounds :: "game_map \<Rightarrow> int \<Rightarrow> int \<Rightarrow> bool" where
  "in_bounds gm x y \<longleftrightarrow> 0 \<le> x \<and> x < width gm \<and> 0 \<le> y \<and> y < height gm"

text \<open>
  numpy indexing of a two-dimensional array: a negative index counts from the end, an index
  outside the shape raises \<^verbatim>\<open>IndexError\<close>.
\<close>

definition np_index :: "'a list \<Rightarrow> int \<Rightarrow> error + 'a" where
  "np_index xs i =
     (let n = int (length xs); j = (if i < 0 then i + n else i)
      in if 0 \<le> j \<and> j < n then Inr (xs ! nat j) else Inl IndexError)"

text \<open>
  The tile array of a map is built with the shape (width, height) of the map. game\_map.py,
  which builds it, is not among the sources, so this is a condition on the map.
\<close>

definition tiles_fit :: "game_map \<Rightarrow> bool" where
  "tiles_fit gm \<longleftrightarrow>
     int (length (tiles gm)) = width gm
     \<and> list_all (\<lambda>col. int (length col) = height gm) (tiles gm)"

definition tile_at :: "game_map \<Rightarrow> int \<Rightarrow> int \<Rightarrow> error + tile" where
  "tile_at gm x y =
     (case np_index (tiles gm) x of
        Inl e \<Rightarrow> Inl e
      | Inr col \<Rightarrow> np_index col y)"

definition eref_x :: "'gw engine \<Rightarrow> eref \<Rightarrow> int" where
  "eref_x w e = (case e of ActorRef r \<Rightarrow> ent_x (actor_heap w r) | ItemRef r \<Rightarrow> ent_x (item_heap w r))"

definition eref_y :: "'gw engine \<Rightarrow> eref \<Rightarrow> int" where
  "eref_y w e = (case e of ActorRef r \<Rightarrow> ent_y (actor_heap w r) | ItemRef r \<Rightarrow> ent_y (item_heap w r))"

definition eref_blocks :: "'gw engine \<Rightarrow> eref \<Rightarrow> bool" where
  "eref_blocks w e =
     (case e of ActorRef r \<Rightarrow> blocks_movement (actor_heap w r)
              | ItemRef r \<Rightarrow> blocks_movement (item_heap w r))"

text \<open>
  Modelled from the spec: \<^verbatim>\<open>GameMap.actors\<close> and \<^verbatim>\<open>GameMap.items\<close>, the actors and the
  items of the entity collection, in its storage order.
\<close>

fun actors :: "eref list \<Rightarrow> ref list" where
  "actors [] = []"
| "actors (ActorRef r # es) = r # actors es"
| "actors (ItemRef r # es) = actors es"

fun items :: "eref list \<Rightarrow> ref list" where
  "items [] = []"
| "items (ActorRef r # es) = items es"
| "items (ItemRef r # es) = r # items es"

text \<open>
  Modelled from the spec: \<^verbatim>\<open>GameMap.get_blocking_entity_at_location\<close>, "an entity
  occupying a tile that prevents movement onto it", and
  \<^verbatim>\<open>GameMap.get_actor_at_location\<close>, the actor occupying a location; the first one in
  storage order, \<open>None\<close> when there is none.
\<close>

definition get_blocking_entity_at_location :: "'gw engine \<Rightarrow> int \<Rightarrow> int \<Rightarrow> eref option" where
  "get_blocking_entity_at_location w lx ly =
     find (\<lambda>e. eref_blocks w e \<and> eref_x w e = lx \<and> eref_y w e = ly) (entities (game_map w))"

definition get_actor_at_location :: "'gw engine \<Rightarrow> int \<Rightarrow> int \<Rightarrow> ref option" where
  "get_actor_at_location w lx ly =
     find (\<lambda>r. ent_x (actor_heap w r) = lx \<and> ent_y (actor_heap w r) = ly)
       (actors (entities (game_map w)))"

subsection \<open>The message log\<close>

text \<open>
  Modelled from the spec: \<^verbatim>\<open>MessageLog.add_message\<close>, the narration sink, which accepts
  a text and a style and never fails; the log is the sequence of what it accepted.
\<close>

definition add_message :: "string \<Rightarrow> color \<Rightarrow> 'gw engine \<Rightarrow> 'gw engine" where
  "add_message text c w = w\<lparr>message_log := message_log w @ [(text, c)]\<rparr>"

subsection \<open>Entities\<close>

text \<open>
  Modelled from the spec: \<^verbatim>\<open>Entity.move\<close>, "the Actor's position update by the given
  offset".
\<close>

definition move :: "ref \<Rightarrow> int \<Rightarrow> int \<Rightarrow> 'gw engine \<Rightarrow> 'gw engine" where
  "move r dx dy w =
     w\<lparr>actor_heap := (actor_heap w)
        (r := (actor_heap w r)\<lparr>ent_x := ent_x (actor_heap w r) + dx,
                               ent_y := ent_y (actor_heap w r) + dy\<rparr>)\<rparr>"

subsection \<open>Python strings\<close>

text \<open>
  \<^verbatim>\<open>str.capitalize\<close> and the decimal form of an int in an f-string. A string is a
  list of ASCII characters here: \<open>capitalize\<close> is \<^verbatim>\<open>str.capitalize\<close> on names made
  of ASCII characters only, and says nothing about the case mapping of other letters.
\<close>

definition upper_char :: "char \<Rightarrow> char" where
  "upper_char c =
     (let n = (of_char c :: nat) in if 97 \<le> n \<and> n \<le> 122 then char_of (n - 32) else c)"

definition lower_char :: "char \<Rightarrow> char" where
  "lower_char c =
     (let n = (of_char c :: nat) in if 65 \<le> n \<and> n \<le> 90 then char_of (n + 32) else c)"

definition capitalize :: "string \<Rightarrow> string" where
  "capitalize s = (case s of [] \<Rightarrow> [] | c # cs \<Rightarrow> upper_char c # map lower_char cs)"

function str_nat :: "nat \<Rightarrow> string" where
  "str_nat n =
     (if n < 10 then [char_of (48 + n)] else str_nat (n div 10) @ [char_of (48 + n mod 10)])"
  by pat_completeness auto
termination
  by (relation "measure (\<lambda>n. n)") auto

declare str_nat.simps [simp del]

definition str_int :: "int \<Rightarrow> string" where
  "str_int i = (if i < 0 then CHR ''-'' # str_nat (nat (- i)) else str_nat (nat i))"

subsection \<open>Equipment and inventory\<close>

text \<open>
  Modelled from the spec: \<^verbatim>\<open>Equipment.item_is_equipped\<close>, the item occupies a slot of
  the equipment mapping.
\<close>

definition item_is_equipped :: "(EquipmentType \<Rightarrow> ref option) \<Rightarrow> ref \<Rightarrow> bool" where
  "item_is_equipped eq it \<longleftrightarrow> eq WEAPON = Some it \<or> eq ARMOR = Some it"

text \<open>
  Modelled from the spec: \<^verbatim>\<open>Equipment.toggle_equip\<close>, "equipping an item already
  equipped in its slot unequips it (toggle semantics), and vice versa"; the slot of an item
  is the one of its category. An item without the equippable capability is a "missing
  capability", which fails fast.
\<close>

definition toggle_equip :: "ref \<Rightarrow> ref \<Rightarrow> 'gw engine \<Rightarrow> 'gw outcome" where
  "toggle_equip ent it w =
     (case equippable (item_heap w it) of
        None \<Rightarrow> (Inl AttributeError, w)
      | Some q \<Rightarrow>
          (let slot = equipment_type q;
               a = actor_heap w ent;
               eq = equipment a
           in (Inr (),
               w\<lparr>actor_heap := (actor_heap w)
                   (ent := a\<lparr>equipment :=
                      eq(slot := (if eq slot = Some it then None else Some it))\<rparr>)\<rparr>)))"

text \<open>
  Modelled from the spec: \<^verbatim>\<open>Inventory.drop\<close>, which "removes from inventory and re-adds
  to the world's entity collection at the Actor's current position (ownership transfer
  back)". The name \<open>drop\<close> is taken in HOL.
\<close>

definition drop_item :: "ref \<Rightarrow> ref \<Rightarrow> 'gw engine \<Rightarrow> 'gw engine" where
  "drop_item ent it w =
     (let a = actor_heap w ent;
          w1 = w\<lparr>actor_heap := (actor_heap w)
                  (ent := a\<lparr>inventory :=
                     (inventory a)\<lparr>inv_items := remove1 it (inv_items (inventory a))\<rparr>\<rparr>)\<rparr>;
          w2 = w1\<lparr>item_heap := (item_heap w1)
                  (it := (item_heap w1 it)
                     \<lparr>ent_x := ent_x a, ent_y := ent_y a, parent := ParentGameMap\<rparr>)\<rparr>
      in w2\<lparr>game_map := (game_map w2)
              \<lparr>entities := entities (game_map w2) @ [ItemRef it]\<rparr>\<rparr>)"

section \<open>The actions (actions.py)\<close>

text \<open>
  An action is bound to the actor that performs it. \<open>Action\<close> and \<open>ActionWithDirection\<close>
  themselves only raise \<^verbatim>\<open>NotImplementedError\<close> and are never performed.
\<close>

datatype action =
    PickupAction ref
  | ItemAction ref ref "int \<times> int"
  | DropAction ref ref "int \<times> int"
  | EquipAction ref ref
  | WaitAction ref
  | TakeStairsAction ref bool
  | MeleeAction ref int int
  | MovementAction ref int int
  | BumpAction ref int int

text \<open>
  The game world (the floors and their generation) and the consumables are collaborators of
  which the actions know the methods only; they are parameters here. Each may read and
  change the whole engine.
\<close>

record 'gw collaborators =
  next_floor_exists :: "'gw engine \<Rightarrow> bool"
  descend_floor :: "'gw engine \<Rightarrow> 'gw engine"
  generate_floor :: "'gw engine \<Rightarrow> 'gw engine"
  ascend_floor :: "'gw engine \<Rightarrow> 'gw engine"
  current_floor_number :: "'gw engine \<Rightarrow> int"
  activate :: "nat \<Rightarrow> action \<Rightarrow> 'gw engine \<Rightarrow> 'gw outcome"

subsection \<open>PickupAction\<close>

text \<open>
  The loop over \<^verbatim>\<open>game_map.items\<close>: the first item on the actor's tile decides, and the
  \<^verbatim>\<open>raise\<close> after the loop is reached when no item is there.
\<close>

fun pickup_scan :: "ref \<Rightarrow> int \<Rightarrow> int \<Rightarrow> ref list \<Rightarrow> 'gw engine \<Rightarrow> 'gw outcome" where
  "pickup_scan ent ax ay [] w = (Inl (Impossible ''There is nothing here to pick up.''), w)"
| "pickup_scan ent ax ay (it # rest) w =
     (if ax = ent_x (item_heap w it) \<and> ay = ent_y (item_heap w it) then
        (if int (length (inv_items (inventory (actor_heap w ent))))
              \<ge> capacity (inventory (actor_heap w ent)) then
           (Inl (Impossible ''Your inventory is full.''), w)
         else
           (let w1 = w\<lparr>game_map := (game_map w)
                        \<lparr>entities := remove1 (ItemRef it) (entities (game_map w))\<rparr>\<rparr>;
                w2 = w1\<lparr>item_heap := (item_heap w1)
                        (it := (item_heap w1 it)\<lparr>parent := ParentInventory ent\<rparr>)\<rparr>;
                a = actor_heap w2 ent;
                w3 = w2\<lparr>actor_heap := (actor_heap w2)
                        (ent := a\<lparr>inventory :=
                           (inventory a)\<lparr>inv_items := inv_items (inventory a) @ [it]\<rparr>\<rparr>)\<rparr>
            in (Inr (),
                add_message (''You pick up the '' @ ent_name (item_heap w3 it) @ ''.'')
                  default_fg w3)))
      else pickup_scan ent ax ay rest w)"

definition PickupAction_perform :: "ref \<Rightarrow> 'gw engine \<Rightarrow> 'gw outcome" where
  "PickupAction_perform ent w =
     pickup_scan ent (ent_x (actor_heap w ent)) (ent_y (actor_heap w ent))
       (items (entities (game_map w))) w"

subsection \<open>ItemAction\<close>

text \<open>The constructor: without a target, the action aims at the actor's own tile.\<close>

definition ItemAction_init :: "'gw engine \<Rightarrow> ref \<Rightarrow> ref \<Rightarrow> (int \<times> int) option \<Rightarrow> action" where
  "ItemAction_init w ent it target_xy =
     (case target_xy of
        None \<Rightarrow> ItemAction ent it (ent_x (actor_heap w ent), ent_y (actor_heap w ent))
      | Some t \<Rightarrow> ItemAction ent it t)"

definition item_target_actor :: "'gw engine \<Rightarrow> int \<times> int \<Rightarrow> ref option" where
  "item_target_actor w target_xy = (case target_xy of (tx, ty) \<Rightarrow> get_actor_at_location w tx ty)"

definition ItemAction_perform ::
  "'gw collaborators \<Rightarrow> ref \<Rightarrow> ref \<Rightarrow> int \<times> int \<Rightarrow> 'gw engine \<Rightarrow> 'gw outcome" where
  "ItemAction_perform C ent it target_xy w =
     (case consumable (item_heap w it) of
        Some c \<Rightarrow> activate C c (ItemAction ent it target_xy) w
      | None \<Rightarrow> (Inr (), w))"

subsection \<open>DropAction\<close>

definition DropAction_perform :: "ref \<Rightarrow> ref \<Rightarrow> 'gw engine \<Rightarrow> 'gw outcome" where
  "DropAction_perform ent it w =
     (if item_is_equipped (equipment (actor_heap w ent)) it then
        (case equippable (item_heap w it) of
           None \<Rightarrow> (Inl AttributeError, w)
         | Some q \<Rightarrow>
             if equipment_type q = ARMOR then
               (Inr (), add_message ''You cannot drop something you are wearing.'' invalid w)
             else
               (case toggle_equip ent it w of
                  (Inl e, w1) \<Rightarrow> (Inl e, w1)
                | (Inr u, w1) \<Rightarrow> (Inr (), drop_item ent it w1)))
      else (Inr (), drop_item ent it w))"

subsection \<open>EquipAction and WaitAction\<close>

definition EquipAction_perform :: "ref \<Rightarrow> ref \<Rightarrow> 'gw engine \<Rightarrow> 'gw outcome" where
  "EquipAction_perform ent it w = toggle_equip ent it w"

definition WaitAction_perform :: "ref \<Rightarrow> 'gw engine \<Rightarrow> 'gw outcome" where
  "WaitAction_perform ent w = (Inr (), w)"

subsection \<open>TakeStairsAction\<close>

text \<open>
  Two \<^verbatim>\<open>if\<close> statements in a row: the second one runs on the engine the first one left,
  unless the first one raised.
\<close>

definition on_downstairs :: "'gw engine \<Rightarrow> ref \<Rightarrow> bool" where
  "on_downstairs w ent \<longleftrightarrow>
     (ent_x (actor_heap w ent), ent_y (actor_heap w ent)) = downstairs_location (game_map w)"

definition on_upstairs :: "'gw engine \<Rightarrow> ref \<Rightarrow> bool" where
  "on_upstairs w ent \<longleftrightarrow>
     (ent_x (actor_heap w ent), ent_y (actor_heap w ent)) = upstairs_location (game_map w)"

definition take_downstairs :: "'gw collaborators \<Rightarrow> ref \<Rightarrow> bool \<Rightarrow> 'gw engine \<Rightarrow> 'gw outcome" where
  "take_downstairs C ent downward w =
     (if on_downstairs w ent then
        (if downward then
           (Inr (),
            add_message ''You descend the staircase.'' descend
              (if next_floor_exists C w then descend_floor C w else generate_floor C w))
         else (Inl (Impossible ''You cannot go up this staircase.''), w))
      else (Inr (), w))"

definition take_upstairs :: "'gw collaborators \<Rightarrow> ref \<Rightarrow> bool \<Rightarrow> 'gw engine \<Rightarrow> 'gw outcome" where
  "take_upstairs C ent downward w =
     (if on_upstairs w ent then
        (if downward then (Inr (), w)
         else if current_floor_number C w = 1 then
           (Inl (Impossible ''You have not finished your mission. You may not leave.''), w)
         else (Inr (), add_message ''You ascend the staircase.'' descend (ascend_floor C w)))
      else (Inr (), w))"

definition TakeStairsAction_perform ::
  "'gw collaborators \<Rightarrow> ref \<Rightarrow> bool \<Rightarrow> 'gw engine \<Rightarrow> 'gw outcome" where
  "TakeStairsAction_perform C ent downward w =
     (case take_downstairs C ent downward w of
        (Inl e, w1) \<Rightarrow> (Inl e, w1)
      | (Inr u, w1) \<Rightarrow> take_upstairs C ent downward w1)"

subsection \<open>ActionWithDirection\<close>

definition dest_xy :: "'gw engine \<Rightarrow> ref \<Rightarrow> int \<Rightarrow> int \<Rightarrow> int \<times> int" where
  "dest_xy w ent dx dy = (ent_x (actor_heap w ent) + dx, ent_y (actor_heap w ent) + dy)"

definition blocking_entity :: "'gw engine \<Rightarrow> ref \<Rightarrow> int \<Rightarrow> int \<Rightarrow> eref option" where
  "blocking_entity w ent dx dy =
     (case dest_xy w ent dx dy of (tx, ty) \<Rightarrow> get_blocking_entity_at_location w tx ty)"

definition target_actor :: "'gw engine \<Rightarrow> ref \<Rightarrow> int \<Rightarrow> int \<Rightarrow> ref option" where
  "target_actor w ent dx dy =
     (case dest_xy w ent dx dy of (tx, ty) \<Rightarrow> get_actor_at_location w tx ty)"

subsection \<open>MeleeAction\<close>

definition MeleeAction_perform :: "ref \<Rightarrow> int \<Rightarrow> int \<Rightarrow> 'gw engine \<Rightarrow> 'gw outcome" where
  "MeleeAction_perform ent dx dy w =
     (case target_actor w ent dx dy of
        None \<Rightarrow> (Inl (Impossible ''Nothing to attack''), w)
      | Some target \<Rightarrow>
          (let damage = power_attr (fighter (actor_heap w ent))
                          - defense (fighter (actor_heap w target));
               attack_desc = capitalize (ent_name (actor_heap w ent)) @ '' attacks ''
                               @ ent_name (actor_heap w target);
               attack_color = (if ent = player w then player_atk else enemy_atk)
           in if damage > 0 then
                (let w1 = add_message
                            (attack_desc @ '' for '' @ str_int damage @ '' hit points.'')
                            attack_color w;
                     tf = fighter (actor_heap w1 target)
                 in (Inr (),
                     w1\<lparr>actor_heap := (actor_heap w1)
                          (target := (actor_heap w1 target)
                             \<lparr>fighter := tf\<lparr>hp := hp tf - damage\<rparr>\<rparr>)\<rparr>))
              else
                (Inr (), add_message (attack_desc @ '' but does no damage.'') attack_color w)))"

subsection \<open>MovementAction\<close>

definition MovementAction_perform :: "ref \<Rightarrow> int \<Rightarrow> int \<Rightarrow> 'gw engine \<Rightarrow> 'gw outcome" where
  "MovementAction_perform ent dx dy w =
     (case dest_xy w ent dx dy of (dest_x, dest_y) \<Rightarrow>
        if \<not> in_bounds (game_map w) dest_x dest_y then
          (Inl (Impossible ''That way is blocked.''), w)
        else
          (case tile_at (game_map w) dest_x dest_y of
             Inl e \<Rightarrow> (Inl e, w)
           | Inr t \<Rightarrow>
               if \<not> walkable t then (Inl (Impossible ''That way is blocked.''), w)
               else if get_blocking_entity_at_location w dest_x dest_y \<noteq> None then
                 (Inl (Impossible ''That way is blocked.''), w)
               else (Inr (), move ent dx dy w)))"

subsection \<open>BumpAction\<close>

definition BumpAction_perform :: "ref \<Rightarrow> int \<Rightarrow> int \<Rightarrow> 'gw engine \<Rightarrow> 'gw outcome" where
  "BumpAction_perform ent dx dy w =
     (if target_actor w ent dx dy \<noteq> None then MeleeAction_perform ent dx dy w
      else MovementAction_perform ent dx dy w)"

subsection \<open>Performing an action\<close>

fun perform :: "'gw collaborators \<Rightarrow> action \<Rightarrow> 'gw engine \<Rightarrow> 'gw outcome" where
  "perform C (PickupAction ent) w = PickupAction_perform ent w"
| "perform C (ItemAction ent it target_xy) w = ItemAction_perform C ent it target_xy w"
| "perform C (DropAction ent it target_xy) w = DropAction_perform ent it w"
| "perform C (EquipAction ent it) w = EquipAction_perform ent it w"
| "perform C (WaitAction ent) w = WaitAction_perform ent w"
| "perform C (TakeStairsAction ent downward) w = TakeStairsAction_perform C ent downward w"
| "perform C (MeleeAction ent dx dy) w = MeleeAction_perform ent dx dy w"
| "perform C (MovementAction ent dx dy) w = MovementAction_perform ent dx dy w"
| "perform C (BumpAction ent dx dy) w = BumpAction_perform ent dx dy w"

section \<open>Concrete worlds\<close>

text \<open>
  Modelled from the spec: a floor lifecycle that only counts ("floor number increments",
  "ascend one floor") and consumables that do nothing. The maps of the floors and the
  placement of the player are delegated by the specification and stay as they are. It
  serves to run the actions on the worlds below.
\<close>

record game_world =
  floor_number :: int
  floors_generated :: int

definition counting_floors :: "game_world collaborators" where
  "counting_floors =
     \<lparr>next_floor_exists = (\<lambda>w. floor_number (game_world w) < floors_generated (game_world w)),
      descend_floor = (\<lambda>w. w\<lparr>game_world := (game_world w)
                          \<lparr>floor_number := floor_number (game_world w) + 1\<rparr>\<rparr>),
      generate_floor = (\<lambda>w. w\<lparr>game_world := (game_world w)
                          \<lparr>floor_number := floor_number (game_world w) + 1,
                           floors_generated := floors_generated (game_world w) + 1\<rparr>\<rparr>),
      ascend_floor = (\<lambda>w. w\<lparr>game_world := (game_world w)
                          \<lparr>floor_number := floor_number (game_world w) - 1\<rparr>\<rparr>),
      current_floor_number = (\<lambda>w. floor_number (game_world w)),
      activate = (\<lambda>c a w. (Inr (), w))\<rparr>"

text \<open>
  Three actors: the player (0) on tile (1, 1), an orc (1) east of it and a troll (2) south
  of it, which the player cannot hurt and which carries nothing.
\<close>

definition no_equipment :: "EquipmentType \<Rightarrow> ref option" where
  "no_equipment = (\<lambda>s. None)"

definition hero :: actor where
  "hero = \<lparr>ent_x = 1, ent_y = 1, ent_name = ''player'', blocks_movement = True,
            fighter = \<lparr>hp = 30, power_attr = 5, defense = 2\<rparr>,
            inventory = \<lparr>capacity = 2, inv_items = []\<rparr>,
            equipment = no_equipment\<rparr>"

definition orc :: actor where
  "orc = \<lparr>ent_x = 2, ent_y = 1, ent_name = ''orc'', blocks_movement = True,
           fighter = \<lparr>hp = 10, power_attr = 3, defense = 0\<rparr>,
           inventory = \<lparr>capacity = 0, inv_items = []\<rparr>,
           equipment = no_equipment\<rparr>"

definition troll :: actor where
  "troll = \<lparr>ent_x = 1, ent_y = 2, ent_name = ''troll'', blocks_movement = True,
             fighter = \<lparr>hp = 16, power_attr = 4, defense = 5\<rparr>,
             inventory = \<lparr>capacity = 0, inv_items = []\<rparr>,
             equipment = no_equipment\<rparr>"

text \<open>
  Five items: a potion (0) and a scroll (1) on the player's tile, a dagger (2) and a
  leather armor (3) at no place yet, a rock (4) on tile (0, 1).
\<close>

definition potion :: item where
  "potion = \<lparr>ent_x = 1, ent_y = 1, ent_name = ''health potion'', blocks_movement = False,
              parent = ParentGameMap, consumable = Some 0, equippable = None\<rparr>"

definition scroll :: item where
  "scroll = \<lparr>ent_x = 1, ent_y = 1, ent_name = ''lightning scroll'', blocks_movement = False,
              parent = ParentGameMap, consumable = Some 1, equippable = None\<rparr>"

definition dagger :: item where
  "dagger = \<lparr>ent_x = 0, ent_y = 0, ent_name = ''dagger'', blocks_movement = False,
              parent = ParentInventory 0, consumable = None,
              equippable = Some \<lparr>equipment_type = WEAPON\<rparr>\<rparr>"

definition leather_armor :: item where
  "leather_armor = \<lparr>ent_x = 0, ent_y = 0, ent_name = ''leather armor'', blocks_movement = False,
              parent = ParentInventory 0, consumable = None,
              equippable = Some \<lparr>equipment_type = ARMOR\<rparr>\<rparr>"

definition rock :: item where
  "rock = \<lparr>ent_x = 0, ent_y = 1, ent_name = ''rock'', blocks_movement = False,
            parent = ParentGameMap, consumable = None, equippable = None\<rparr>"

definition arena_items :: "ref \<Rightarrow> item" where
  "arena_items r =
     (if r = 0 then potion else if r = 1 then scroll else if r = 2 then dagger
      else if r = 3 then leather_armor else rock)"

definition arena_actors :: "ref \<Rightarrow> actor" where
  "arena_actors r = (if r = 0 then hero else if r = 1 then orc else troll)"

text \<open>
  A map of three by three tiles, \<^verbatim>\<open>tiles[x][y]\<close>: walls in the corners (0, 0) and (2, 0),
  the stairs down in the corner (2, 2), the stairs up where the player stands.
\<close>

definition arena_map :: game_map where
  "arena_map =
     \<lparr>width = 3, height = 3,
      tiles = [[wall, floor_tile, floor_tile],
               [floor_tile, floor_tile, floor_tile],
               [wall, floor_tile, down_stairs]],
      entities = [ActorRef 0, ItemRef 4, ActorRef 1, ItemRef 1, ItemRef 0, ActorRef 2],
      downstairs_location = (2, 2),
      upstairs_location = (1, 1)\<rparr>"

definition arena :: "game_world engine" where
  "arena =
     \<lparr>game_map = arena_map,
      game_world = \<lparr>floor_number = 1, floors_generated = 1\<rparr>,
      message_log = [],
      player = 0,
      actor_heap = arena_actors,
      item_heap = arena_items\<rparr>"

text \<open>The same world on the second floor.\<close>

definition arena_below :: "game_world engine" where
  "arena_below = arena\<lparr>game_world := \<lparr>floor_number = 2, floors_generated = 2\<rparr>\<rparr>"

text \<open>
  The player with a full inventory: the dagger in hand, the leather armor worn.
\<close>

definition armed_hero :: actor where
  "armed_hero = hero\<lparr>inventory := \<lparr>capacity = 2, inv_items = [2, 3]\<rparr>,
                     equipment := no_equipment(WEAPON := Some 2, ARMOR := Some 3)\<rparr>"

definition armed_arena :: "game_world engine" where
  "armed_arena = arena\<lparr>actor_heap := arena_actors(0 := armed_hero)\<rparr>"

section \<open>Properties of the actions\<close>

lemmas arena_defs = arena_def arena_map_def arena_actors_def arena_items_def hero_def orc_def
  troll_def potion_def scroll_def dagger_def leather_armor_def rock_def no_equipment_def

lemmas tile_defs = floor_tile_def wall_def down_stairs_def new_tile_def graphic_of_def rgb_of_def
  floor_dark_def floor_light_def

lemmas map_defs = in_bounds_def tile_at_def np_index_def get_blocking_entity_at_location_def
  get_actor_at_location_def eref_x_def eref_y_def eref_blocks_def dest_xy_def target_actor_def

subsection \<open>Helper facts\<close>

lemma tile_at_in_bounds:
  assumes "tiles_fit gm" and "in_bounds gm tx ty"
  shows "tile_at gm tx ty = Inr (tiles gm ! nat tx ! nat ty)"
proof -
  from assms have x: "0 \<le> tx" "tx < int (length (tiles gm))" and y: "0 \<le> ty" "ty < height gm"
    by (simp_all add: tiles_fit_def in_bounds_def)
  from x have "tiles gm ! nat tx \<in> set (tiles gm)" by simp
  with assms(1) have "int (length (tiles gm ! nat tx)) = height gm"
    by (simp add: tiles_fit_def list_all_iff)
  with x y show ?thesis by (simp add: tile_at_def np_index_def)
qed

lemma items_iff: "r \<in> set (items es) \<longleftrightarrow> ItemRef r \<in> set es"
  by (induction es rule: items.induct) auto

lemma find_here: "find P its = Some it \<Longrightarrow> P it \<and> it \<in> set its"
  by (induction its) (auto split: if_splits)

lemma pickup_scan_nothing:
  "\<forall>i\<in>set its. \<not> (ax = ent_x (item_heap w i) \<and> ay = ent_y (item_heap w i)) \<Longrightarrow>
     pickup_scan ent ax ay its w = (Inl (Impossible ''There is nothing here to pick up.''), w)"
  by (induction its) auto

lemma pickup_scan_first:
  "find (\<lambda>i. ax = ent_x (item_heap w i) \<and> ay = ent_y (item_heap w i)) its = Some it \<Longrightarrow>
     pickup_scan ent ax ay its w = pickup_scan ent ax ay [it] w"
  by (induction its) (auto split: if_splits)

lemma pickup_scan_full:
  assumes "capacity (inventory (actor_heap w ent))
             \<le> int (length (inv_items (inventory (actor_heap w ent))))"
    and "\<exists>i\<in>set its. ax = ent_x (item_heap w i) \<and> ay = ent_y (item_heap w i)"
  shows "pickup_scan ent ax ay its w = (Inl (Impossible ''Your inventory is full.''), w)"
  using assms by (induction its) auto

lemma pickup_scan_raise:
  "pickup_scan ent ax ay its w = (Inl e, w') \<Longrightarrow> w' = w"
  by (induction its) (auto simp add: Let_def split: if_splits)

lemma melee_raise: "MeleeAction_perform ent dx dy w = (Inl e, w') \<Longrightarrow> w' = w"
  by (cases "target_actor w ent dx dy")
     (auto simp add: MeleeAction_perform_def Let_def split: if_splits)

lemma movement_raise: "MovementAction_perform ent dx dy w = (Inl e, w') \<Longrightarrow> w' = w"
  by (cases "dest_xy w ent dx dy")
     (auto simp add: MovementAction_perform_def split: sum.splits if_splits)

lemma toggle_raise: "toggle_equip ent it w \<noteq> (Inl (Impossible m), w')"
  by (simp add: toggle_equip_def Let_def split: option.splits)

lemma drop_raise: "DropAction_perform ent it w \<noteq> (Inl (Impossible m), w')"
proof (cases "toggle_equip ent it w")
  case (Pair r w1)
  with toggle_raise [of ent it w m w1] show ?thesis
    by (cases r) (auto simp add: DropAction_perform_def split: option.splits)
qed

lemma stairs_raise:
  "TakeStairsAction_perform C ent downward w = (Inl e, w') \<Longrightarrow> w' = w"
  by (cases downward)
     (auto simp add: TakeStairsAction_perform_def take_downstairs_def take_upstairs_def
        split: if_splits)

text \<open>What the actions do on the concrete worlds.\<close>

lemma arena_fit: "tiles_fit (game_map arena)"
  by (simp add: tiles_fit_def arena_defs)

lemma arena_targets:
  "target_actor arena 0 1 0 = Some 1"
  "target_actor arena 0 0 1 = Some 2"
  "target_actor arena 0 (- 1) 0 = None"
  "target_actor arena 0 0 (- 1) = None"
  by (simp_all add: map_defs arena_defs)

lemma arena_dests:
  "dest_xy arena 0 0 (- 1) = (1, 0)"
  "dest_xy arena 0 1 0 = (2, 1)"
  "dest_xy arena 0 0 (- 2) = (1, - 1)"
  "dest_xy arena 0 (- 1) (- 1) = (0, 0)"
  by (simp_all add: map_defs arena_defs)

lemma arena_tiles:
  "tile_at (game_map arena) 1 0 = Inr floor_tile"
  "tile_at (game_map arena) 2 1 = Inr floor_tile"
  "tile_at (game_map arena) 0 0 = Inr wall"
  by (simp_all add: map_defs arena_defs)

lemma arena_bounds:
  "in_bounds (game_map arena) 1 0"
  "in_bounds (game_map arena) 2 1"
  "in_bounds (game_map arena) 0 0"
  "\<not> in_bounds (game_map arena) 1 (- 1)"
  by (simp_all add: map_defs arena_defs)

lemma arena_blockers:
  "get_blocking_entity_at_location arena 1 0 = None"
  "get_blocking_entity_at_location arena 2 1 = Some (ActorRef 1)"
  by (simp_all add: map_defs arena_defs)

lemma tile_constants:
  "new_tile 1 1 (32, (255, 255, 255), floor_dark) (32, (255, 255, 255), floor_light)
     = Inr floor_tile"
  "new_tile 0 0 (9617, (0, 0, 0), (36, 35, 27)) (9617, (0, 0, 0), (94, 82, 44)) = Inr wall"
  "new_tile 1 1 (62, (255, 255, 255), floor_dark) (62, (255, 255, 255), floor_light)
     = Inr down_stairs"
  "graphic_of (32, (255, 255, 255), (0, 0, 0)) = Inr SHROUD"
  by (simp_all add: tile_defs SHROUD_def)

lemma tile_flags: "walkable floor_tile" "\<not> walkable wall"
  by (simp_all add: tile_defs)

subsection \<open>BumpAction\<close>

text \<open>
  C1. For every acting entity and offset, a BumpAction has the outcome (the result and the
  whole engine: positions, hit points, messages) of a MeleeAction with the same entity and
  offset when an actor is at the destination, and the outcome of a MovementAction with the
  same entity and offset when no actor is there.
\<close>

theorem bump_dispatch:
  "(target_actor w ent dx dy \<noteq> None \<longrightarrow>
      perform C (BumpAction ent dx dy) w = perform C (MeleeAction ent dx dy) w)
   \<and> (target_actor w ent dx dy = None \<longrightarrow>
      perform C (BumpAction ent dx dy) w = perform C (MovementAction ent dx dy) w)"
  by (simp add: BumpAction_perform_def)

theorem bump_dispatch_witness:
  "target_actor arena 0 1 0 = Some 1
   \<and> perform counting_floors (BumpAction 0 1 0) arena
       = perform counting_floors (MeleeAction 0 1 0) arena
   \<and> target_actor arena 0 0 (- 1) = None
   \<and> perform counting_floors (BumpAction 0 0 (- 1)) arena
       = perform counting_floors (MovementAction 0 0 (- 1)) arena"
proof -
  note a = arena_targets(1) and b = arena_targets(4)
  from bump_dispatch [of arena 0 1 0 counting_floors] a
  have c: "perform counting_floors (BumpAction 0 1 0) arena
             = perform counting_floors (MeleeAction 0 1 0) arena"
    by simp
  from bump_dispatch [of arena 0 0 "- 1" counting_floors] b
  have d: "perform counting_floors (BumpAction 0 0 (- 1)) arena
             = perform counting_floors (MovementAction 0 0 (- 1)) arena"
    by blast
  from a b c d show ?thesis by blast
qed

subsection \<open>Failing leaves the world as it was\<close>

text \<open>
  C2. For every action and every world: when performing the action fails with Impossible,
  the engine is exactly the one before (entity collection, every actor's position,
  inventory, equipment and fighter, the floor). The activation of a consumable is not part
  of actions.py; it is required to leave the engine alone when it fails.
\<close>

theorem impossible_leaves_world_unchanged:
  assumes act: "\<forall>c a v m v'. activate C c a v = (Inl (Impossible m), v') \<longrightarrow> v' = v"
    and fail: "perform C a w = (Inl (Impossible m), w')"
  shows "w' = w"
proof (cases a)
  case (PickupAction ent)
  with fail show ?thesis
    by (simp add: PickupAction_perform_def pickup_scan_raise)
next
  case (ItemAction ent it target_xy)
  show ?thesis
  proof (cases "consumable (item_heap w it)")
    case None
    with fail ItemAction show ?thesis by (simp add: ItemAction_perform_def)
  next
    case (Some c)
    with fail ItemAction
    have "activate C c (ItemAction ent it target_xy) w = (Inl (Impossible m), w')"
      by (simp add: ItemAction_perform_def)
    with act show ?thesis by blast
  qed
next
  case (DropAction ent it target_xy)
  with fail drop_raise [of ent it w m w'] show ?thesis by simp
next
  case (EquipAction ent it)
  with fail toggle_raise [of ent it w m w'] show ?thesis
    by (simp add: EquipAction_perform_def)
next
  case (WaitAction ent)
  with fail show ?thesis by (simp add: WaitAction_perform_def)
next
  case (TakeStairsAction ent downward)
  with fail show ?thesis by (simp add: stairs_raise)
next
  case (MeleeAction ent dx dy)
  with fail show ?thesis by (simp add: melee_raise)
next
  case (MovementAction ent dx dy)
  with fail show ?thesis by (simp add: movement_raise)
next
  case (BumpAction ent dx dy)
  with fail show ?thesis
    by (cases "target_actor w ent dx dy = None")
       (simp_all add: BumpAction_perform_def melee_raise movement_raise)
qed

theorem impossible_leaves_world_unchanged_witness:
  "fst (perform counting_floors (MovementAction 0 1 0) arena)
     = Inl (Impossible ''That way is blocked.'')
   \<and> snd (perform counting_floors (MovementAction 0 1 0) arena) = arena"
proof -
  have act: "\<forall>c a v m v'. activate counting_floors c a v = (Inl (Impossible m), v') \<longrightarrow> v' = v"
    by (simp add: counting_floors_def)
  have f: "fst (perform counting_floors (MovementAction 0 1 0) arena)
             = Inl (Impossible ''That way is blocked.'')"
    by (simp add: MovementAction_perform_def arena_dests arena_bounds arena_tiles
        arena_blockers tile_flags)
  then have "perform counting_floors (MovementAction 0 1 0) arena
               = (Inl (Impossible ''That way is blocked.''),
                  snd (perform counting_floors (MovementAction 0 1 0) arena))"
    by (simp add: prod_eq_iff)
  from impossible_leaves_world_unchanged [OF act this] f show ?thesis by simp
qed

subsection \<open>MovementAction\<close>

text \<open>
  C3. For every MovementAction on a map whose tile array has the shape of the map: if the
  destination (x + dx, y + dy) is out of bounds, or its tile is not walkable, or a
  movement-blocking entity is on it, performing it fails with Impossible and the engine,
  so the actor's position, is unchanged; if none of the three holds, it succeeds and the
  actor's position is exactly (x + dx, y + dy).
\<close>

theorem movement_blocked_or_moved:
  assumes fit: "tiles_fit (game_map w)"
    and dest: "dest_xy w ent dx dy = (tx, ty)"
  shows "((\<not> in_bounds (game_map w) tx ty
            \<or> (\<exists>t. tile_at (game_map w) tx ty = Inr t \<and> \<not> walkable t)
            \<or> get_blocking_entity_at_location w tx ty \<noteq> None) \<longrightarrow>
          perform C (MovementAction ent dx dy) w = (Inl (Impossible ''That way is blocked.''), w))
       \<and> (\<not> (\<not> in_bounds (game_map w) tx ty
            \<or> (\<exists>t. tile_at (game_map w) tx ty = Inr t \<and> \<not> walkable t)
            \<or> get_blocking_entity_at_location w tx ty \<noteq> None) \<longrightarrow>
          fst (perform C (MovementAction ent dx dy) w) = Inr ()
          \<and> ent_x (actor_heap (snd (perform C (MovementAction ent dx dy) w)) ent) = tx
          \<and> ent_y (actor_heap (snd (perform C (MovementAction ent dx dy) w)) ent) = ty)"
proof (cases "in_bounds (game_map w) tx ty")
  case False
  with dest show ?thesis by (simp add: MovementAction_perform_def)
next
  case True
  with fit have t: "tile_at (game_map w) tx ty = Inr (tiles (game_map w) ! nat tx ! nat ty)"
    by (rule tile_at_in_bounds)
  from dest have xy: "tx = ent_x (actor_heap w ent) + dx" "ty = ent_y (actor_heap w ent) + dy"
    by (simp_all add: dest_xy_def)
  from True t dest show ?thesis
    by (auto simp add: MovementAction_perform_def move_def xy)
qed

theorem movement_blocked_or_moved_witness:
  "tiles_fit (game_map arena)
   \<and> fst (perform counting_floors (MovementAction 0 0 (- 1)) arena) = Inr ()
   \<and> ent_x (actor_heap (snd (perform counting_floors (MovementAction 0 0 (- 1)) arena)) 0) = 1
   \<and> ent_y (actor_heap (snd (perform counting_floors (MovementAction 0 0 (- 1)) arena)) 0) = 0
   \<and> perform counting_floors (MovementAction 0 0 (- 2)) arena
       = (Inl (Impossible ''That way is blocked.''), arena)
   \<and> perform counting_floors (MovementAction 0 (- 1) (- 1)) arena
       = (Inl (Impossible ''That way is blocked.''), arena)
   \<and> perform counting_floors (MovementAction 0 1 0) arena
       = (Inl (Impossible ''That way is blocked.''), arena)"
proof -
  have free: "\<not> (\<not> in_bounds (game_map arena) 1 0
            \<or> (\<exists>t. tile_at (game_map arena) 1 0 = Inr t \<and> \<not> walkable t)
            \<or> get_blocking_entity_at_location arena 1 0 \<noteq> None)"
    by (simp add: arena_bounds arena_tiles arena_blockers tile_flags)
  have outside: "\<not> in_bounds (game_map arena) 1 (- 1)"
    by (rule arena_bounds(4))
  have walled: "\<exists>t. tile_at (game_map arena) 0 0 = Inr t \<and> \<not> walkable t"
    by (simp add: arena_tiles tile_flags)
  have taken: "get_blocking_entity_at_location arena 2 1 \<noteq> None"
    by (simp add: arena_blockers)
  from movement_blocked_or_moved [OF arena_fit arena_dests(1), of counting_floors] free
  have a: "fst (perform counting_floors (MovementAction 0 0 (- 1)) arena) = Inr ()
     \<and> ent_x (actor_heap (snd (perform counting_floors (MovementAction 0 0 (- 1)) arena)) 0) = 1
     \<and> ent_y (actor_heap (snd (perform counting_floors (MovementAction 0 0 (- 1)) arena)) 0) = 0"
    by blast
  from movement_blocked_or_moved [OF arena_fit arena_dests(3), of counting_floors] outside
  have b: "perform counting_floors (MovementAction 0 0 (- 2)) arena
             = (Inl (Impossible ''That way is blocked.''), arena)"
    by blast
  from movement_blocked_or_moved [OF arena_fit arena_dests(4), of counting_floors] walled
  have c: "perform counting_floors (MovementAction 0 (- 1) (- 1)) arena
             = (Inl (Impossible ''That way is blocked.''), arena)"
    by blast
  from movement_blocked_or_moved [OF arena_fit arena_dests(2), of counting_floors] taken
  have d: "perform counting_floors (MovementAction 0 1 0) arena
             = (Inl (Impossible ''That way is blocked.''), arena)"
    by blast
  from arena_fit a b c d show ?thesis by blast
qed

text \<open>
  C9. In a MovementAction the bounds check comes before the tile array is indexed: out of
  bounds the outcome is fixed without the array, and in bounds, on a map whose tile array
  has the shape of the map, the lookup is the plain one at (x, y) and never raises
  IndexError.
\<close>

theorem movement_lookup_in_range:
  assumes fit: "tiles_fit (game_map w)"
    and dest: "dest_xy w ent dx dy = (tx, ty)"
  shows "fst (perform C (MovementAction ent dx dy) w) \<noteq> Inl IndexError
       \<and> (\<not> in_bounds (game_map w) tx ty \<longrightarrow>
            perform C (MovementAction ent dx dy) w = (Inl (Impossible ''That way is blocked.''), w))
       \<and> (in_bounds (game_map w) tx ty \<longrightarrow>
            tile_at (game_map w) tx ty = Inr (tiles (game_map w) ! nat tx ! nat ty))"
proof (cases "in_bounds (game_map w) tx ty")
  case False
  with dest show ?thesis by (simp add: MovementAction_perform_def)
next
  case True
  with fit have t: "tile_at (game_map w) tx ty = Inr (tiles (game_map w) ! nat tx ! nat ty)"
    by (rule tile_at_in_bounds)
  from True t dest show ?thesis
    by (simp add: MovementAction_perform_def)
qed

theorem movement_lookup_in_range_witness:
  "tiles_fit (game_map arena)
   \<and> in_bounds (game_map arena) 1 0
   \<and> tile_at (game_map arena) 1 0 = Inr (tiles (game_map arena) ! nat 1 ! nat 0)
   \<and> fst (perform counting_floors (MovementAction 0 0 (- 1)) arena) \<noteq> Inl IndexError
   \<and> perform counting_floors (MovementAction 0 0 (- 2)) arena
       = (Inl (Impossible ''That way is blocked.''), arena)"
proof -
  from movement_lookup_in_range [OF arena_fit arena_dests(1), of counting_floors] arena_bounds(1)
  have a: "tile_at (game_map arena) 1 0 = Inr (tiles (game_map arena) ! nat 1 ! nat 0)"
    and b: "fst (perform counting_floors (MovementAction 0 0 (- 1)) arena) \<noteq> Inl IndexError"
    by blast+
  from movement_lookup_in_range [OF arena_fit arena_dests(3), of counting_floors] arena_bounds(4)
  have c: "perform counting_floors (MovementAction 0 0 (- 2)) arena
             = (Inl (Impossible ''That way is blocked.''), arena)"
    by blast
  from arena_fit arena_bounds(1) a b c show ?thesis by blast
qed

subsection \<open>MeleeAction\<close>

text \<open>
  C4. For every MeleeAction: with a target actor at the destination it succeeds, and with
  damage = attacker's power - target's defense, the target's hit points go down by exactly
  damage when damage > 0 and stay as they are when damage <= 0 (no actor changes then);
  with no target actor it fails with Impossible.
\<close>

theorem melee_damage:
  "(target_actor w ent dx dy = None \<longrightarrow>
      perform C (MeleeAction ent dx dy) w = (Inl (Impossible ''Nothing to attack''), w))
   \<and> (target_actor w ent dx dy = Some t \<longrightarrow>
        fst (perform C (MeleeAction ent dx dy) w) = Inr ()
      \<and> (0 < power_attr (fighter (actor_heap w ent)) - defense (fighter (actor_heap w t)) \<longrightarrow>
           hp (fighter (actor_heap (snd (perform C (MeleeAction ent dx dy) w)) t))
             = hp (fighter (actor_heap w t))
                 - (power_attr (fighter (actor_heap w ent)) - defense (fighter (actor_heap w t))))
      \<and> (power_attr (fighter (actor_heap w ent)) - defense (fighter (actor_heap w t)) \<le> 0 \<longrightarrow>
           hp (fighter (actor_heap (snd (perform C (MeleeAction ent dx dy) w)) t))
             = hp (fighter (actor_heap w t))
           \<and> actor_heap (snd (perform C (MeleeAction ent dx dy) w)) = actor_heap w))"
  by (simp add: MeleeAction_perform_def add_message_def Let_def)

theorem melee_damage_witness:
  "target_actor arena 0 1 0 = Some 1
   \<and> fst (perform counting_floors (MeleeAction 0 1 0) arena) = Inr ()
   \<and> hp (fighter (actor_heap arena 1)) = 10
   \<and> hp (fighter (actor_heap (snd (perform counting_floors (MeleeAction 0 1 0) arena)) 1)) = 5
   \<and> target_actor arena 0 0 1 = Some 2
   \<and> fst (perform counting_floors (MeleeAction 0 0 1) arena) = Inr ()
   \<and> hp (fighter (actor_heap (snd (perform counting_floors (MeleeAction 0 0 1) arena)) 2)) = 16
   \<and> target_actor arena 0 (- 1) 0 = None
   \<and> perform counting_floors (MeleeAction 0 (- 1) 0) arena
       = (Inl (Impossible ''Nothing to attack''), arena)"
proof -
  have stats:
    "power_attr (fighter (actor_heap arena 0)) = 5"
    "defense (fighter (actor_heap arena 1)) = 0"
    "defense (fighter (actor_heap arena 2)) = 5"
    "hp (fighter (actor_heap arena 1)) = 10"
    "hp (fighter (actor_heap arena 2)) = 16"
    by (simp_all add: arena_defs)
  from melee_damage [of arena 0 1 0 counting_floors 1] arena_targets(1) stats
  have a: "fst (perform counting_floors (MeleeAction 0 1 0) arena) = Inr ()
     \<and> hp (fighter (actor_heap (snd (perform counting_floors (MeleeAction 0 1 0) arena)) 1)) = 5"
    by simp
  from melee_damage [of arena 0 0 1 counting_floors 2] arena_targets(2) stats
  have b: "fst (perform counting_floors (MeleeAction 0 0 1) arena) = Inr ()
     \<and> hp (fighter (actor_heap (snd (perform counting_floors (MeleeAction 0 0 1) arena)) 2)) = 16"
    by simp
  from melee_damage [of arena 0 "- 1" 0 counting_floors 1] arena_targets(3)
  have c: "perform counting_floors (MeleeAction 0 (- 1) 0) arena
             = (Inl (Impossible ''Nothing to attack''), arena)"
    by blast
  from a b c arena_targets stats(4) show ?thesis by blast
qed

subsection \<open>PickupAction\<close>

text \<open>
  C5. For every actor with at least one item on its tile and an inventory shorter than its
  capacity, in a world whose entity collection holds each entity once: PickupAction removes
  the first such item in the collection's iteration order from the entity collection and
  appends it to the end of the actor's inventory, once; the inventory grows by exactly one
  and the world no longer contains the item.
\<close>

theorem pickup_transfers_item:
  assumes found: "find (\<lambda>i. ent_x (actor_heap w ent) = ent_x (item_heap w i)
                          \<and> ent_y (actor_heap w ent) = ent_y (item_heap w i))
                    (items (entities (game_map w))) = Some it"
    and room: "int (length (inv_items (inventory (actor_heap w ent))))
                 < capacity (inventory (actor_heap w ent))"
    and dist: "distinct (entities (game_map w))"
    and res: "perform C (PickupAction ent) w = (r, w')"
  shows "r = Inr ()
       \<and> ItemRef it \<in> set (entities (game_map w))
       \<and> entities (game_map w') = remove1 (ItemRef it) (entities (game_map w))
       \<and> ItemRef it \<notin> set (entities (game_map w'))
       \<and> inv_items (inventory (actor_heap w' ent))
           = inv_items (inventory (actor_heap w ent)) @ [it]
       \<and> length (inv_items (inventory (actor_heap w' ent)))
           = length (inv_items (inventory (actor_heap w ent))) + 1
       \<and> parent (item_heap w' it) = ParentInventory ent
       \<and> message_log w'
           = message_log w @ [(''You pick up the '' @ ent_name (item_heap w it) @ ''.'', default_fg)]"
proof -
  from find_here [OF found]
  have here: "ent_x (actor_heap w ent) = ent_x (item_heap w it)"
             "ent_y (actor_heap w ent) = ent_y (item_heap w it)"
    and mem: "it \<in> set (items (entities (game_map w)))"
    by blast+
  from mem have inw: "ItemRef it \<in> set (entities (game_map w))"
    by (simp add: items_iff)
  from dist have gone: "ItemRef it \<notin> set (remove1 (ItemRef it) (entities (game_map w)))"
    by simp
  from res
  have "(r, w') = pickup_scan ent (ent_x (actor_heap w ent)) (ent_y (actor_heap w ent))
                    (items (entities (game_map w))) w"
    by (simp add: PickupAction_perform_def)
  also have "\<dots> = pickup_scan ent (ent_x (actor_heap w ent)) (ent_y (actor_heap w ent)) [it] w"
    by (rule pickup_scan_first [OF found])
  finally
  have "(r, w') = pickup_scan ent (ent_x (actor_heap w ent)) (ent_y (actor_heap w ent)) [it] w" .
  with here room inw gone show ?thesis
    by (simp add: Let_def add_message_def)
qed

theorem pickup_transfers_item_witness:
  "distinct (entities (game_map arena))
   \<and> items (entities (game_map arena)) = [4, 1, 0]
   \<and> fst (perform counting_floors (PickupAction 0) arena) = Inr ()
   \<and> entities (game_map (snd (perform counting_floors (PickupAction 0) arena)))
       = [ActorRef 0, ItemRef 4, ActorRef 1, ItemRef 0, ActorRef 2]
   \<and> inv_items (inventory (actor_heap arena 0)) = []
   \<and> inv_items (inventory (actor_heap (snd (perform counting_floors (PickupAction 0) arena)) 0))
       = [1]"
proof -
  have its: "items (entities (game_map arena)) = [4, 1, 0]"
    by (simp add: arena_defs)
  have found: "find (\<lambda>i. ent_x (actor_heap arena 0) = ent_x (item_heap arena i)
                          \<and> ent_y (actor_heap arena 0) = ent_y (item_heap arena i))
                 (items (entities (game_map arena))) = Some 1"
    unfolding its by (simp add: arena_defs)
  have room: "int (length (inv_items (inventory (actor_heap arena 0))))
                < capacity (inventory (actor_heap arena 0))"
    by (simp add: arena_defs)
  have dist: "distinct (entities (game_map arena))"
    by (simp add: arena_defs)
  have res: "perform counting_floors (PickupAction 0) arena
               = (fst (perform counting_floors (PickupAction 0) arena),
                  snd (perform counting_floors (PickupAction 0) arena))"
    by simp
  have ents: "entities (game_map arena)
                = [ActorRef 0, ItemRef 4, ActorRef 1, ItemRef 1, ItemRef 0, ActorRef 2]"
    and inv: "inv_items (inventory (actor_heap arena 0)) = []"
    by (simp_all add: arena_defs)
  from pickup_transfers_item [OF found room dist res]
  have "fst (perform counting_floors (PickupAction 0) arena) = Inr ()"
    and "entities (game_map (snd (perform counting_floors (PickupAction 0) arena)))
           = remove1 (ItemRef 1) (entities (game_map arena))"
    and "inv_items (inventory (actor_heap (snd (perform counting_floors (PickupAction 0) arena)) 0))
           = inv_items (inventory (actor_heap arena 0)) @ [1]"
    by blast+
  with dist its inv show ?thesis by (simp add: ents)
qed

text \<open>
  C10. The capacity check of PickupAction comes after an item on the actor's tile is found:
  for every actor whose inventory is full (its length at the capacity, or above), with no
  item on the tile it fails with "There is nothing here to pick up.", with an item on the
  tile it fails with "Your inventory is full."; the engine, so world and inventory, is
  unchanged in both cases.
\<close>

theorem pickup_full_inventory:
  assumes full: "capacity (inventory (actor_heap w ent))
                   \<le> int (length (inv_items (inventory (actor_heap w ent))))"
  shows "((\<forall>i\<in>set (items (entities (game_map w))).
             \<not> (ent_x (actor_heap w ent) = ent_x (item_heap w i)
                \<and> ent_y (actor_heap w ent) = ent_y (item_heap w i))) \<longrightarrow>
          perform C (PickupAction ent) w
            = (Inl (Impossible ''There is nothing here to pick up.''), w))
       \<and> ((\<exists>i\<in>set (items (entities (game_map w))).
             ent_x (actor_heap w ent) = ent_x (item_heap w i)
             \<and> ent_y (actor_heap w ent) = ent_y (item_heap w i)) \<longrightarrow>
          perform C (PickupAction ent) w = (Inl (Impossible ''Your inventory is full.''), w))"
  using pickup_scan_nothing [of "items (entities (game_map w))"
          "ent_x (actor_heap w ent)" w "ent_y (actor_heap w ent)" ent]
        pickup_scan_full [OF full, of "items (entities (game_map w))"
          "ent_x (actor_heap w ent)" "ent_y (actor_heap w ent)"]
  by (simp add: PickupAction_perform_def)

theorem pickup_full_inventory_witness:
  "length (inv_items (inventory (actor_heap armed_arena 0))) = 2
   \<and> capacity (inventory (actor_heap armed_arena 0)) = 2
   \<and> perform counting_floors (PickupAction 0) armed_arena
       = (Inl (Impossible ''Your inventory is full.''), armed_arena)
   \<and> length (inv_items (inventory (actor_heap arena 2))) = 0
   \<and> capacity (inventory (actor_heap arena 2)) = 0
   \<and> perform counting_floors (PickupAction 2) arena
       = (Inl (Impossible ''There is nothing here to pick up.''), arena)"
proof -
  have hero_full: "length (inv_items (inventory (actor_heap armed_arena 0))) = 2"
    "capacity (inventory (actor_heap armed_arena 0)) = 2"
    and troll_full: "length (inv_items (inventory (actor_heap arena 2))) = 0"
    "capacity (inventory (actor_heap arena 2)) = 0"
    by (simp_all add: arena_defs armed_arena_def armed_hero_def)
  have full1: "capacity (inventory (actor_heap armed_arena 0))
                 \<le> int (length (inv_items (inventory (actor_heap armed_arena 0))))"
    and full2: "capacity (inventory (actor_heap arena 2))
                 \<le> int (length (inv_items (inventory (actor_heap arena 2))))"
    by (simp_all add: hero_full troll_full)
  have some: "\<exists>i\<in>set (items (entities (game_map armed_arena))).
                ent_x (actor_heap armed_arena 0) = ent_x (item_heap armed_arena i)
                \<and> ent_y (actor_heap armed_arena 0) = ent_y (item_heap armed_arena i)"
    by (simp add: arena_defs armed_arena_def armed_hero_def)
  have none: "\<forall>i\<in>set (items (entities (game_map arena))).
                \<not> (ent_x (actor_heap arena 2) = ent_x (item_heap arena i)
                   \<and> ent_y (actor_heap arena 2) = ent_y (item_heap arena i))"
    by (simp add: arena_defs armed_arena_def armed_hero_def)
  from pickup_full_inventory [OF full1, of counting_floors] some
  have a: "perform counting_floors (PickupAction 0) armed_arena
             = (Inl (Impossible ''Your inventory is full.''), armed_arena)"
    by blast
  from pickup_full_inventory [OF full2, of counting_floors] none
  have b: "perform counting_floors (PickupAction 2) arena
             = (Inl (Impossible ''There is nothing here to pick up.''), arena)"
    by blast
  from hero_full troll_full a b show ?thesis by blast
qed

subsection \<open>DropAction\<close>

text \<open>
  C6. For every DropAction on an item that is equipped and whose category is not armor, by
  an actor that holds the item once in its inventory and in no slot but the item's own:
  the action succeeds, and afterwards the item is not equipped, is in no slot of the
  equipment mapping, is in the entity collection of the map at the actor's position, and is
  not in the actor's inventory.
\<close>

theorem drop_equipped_item:
  assumes eqd: "item_is_equipped (equipment (actor_heap w ent)) it"
    and q: "equippable (item_heap w it) = Some q"
    and na: "equipment_type q \<noteq> ARMOR"
    and slot: "\<forall>s. equipment (actor_heap w ent) s = Some it \<longrightarrow> s = equipment_type q"
    and dist: "distinct (inv_items (inventory (actor_heap w ent)))"
    and res: "perform C (DropAction ent it target_xy) w = (r, w')"
  shows "r = Inr ()
       \<and> \<not> item_is_equipped (equipment (actor_heap w' ent)) it
       \<and> (\<forall>s. equipment (actor_heap w' ent) s \<noteq> Some it)
       \<and> ItemRef it \<in> set (entities (game_map w'))
       \<and> ent_x (item_heap w' it) = ent_x (actor_heap w' ent)
       \<and> ent_y (item_heap w' it) = ent_y (actor_heap w' ent)
       \<and> it \<notin> set (inv_items (inventory (actor_heap w' ent)))"
proof -
  from na have weapon: "equipment_type q = WEAPON"
    by (cases "equipment_type q") simp_all
  from slot weapon have noarmor: "equipment (actor_heap w ent) ARMOR \<noteq> Some it"
    by auto
  with eqd have held: "equipment (actor_heap w ent) WEAPON = Some it"
    by (simp add: item_is_equipped_def)
  from res eqd q weapon held
  have w': "w' = drop_item ent it
              (w\<lparr>actor_heap := (actor_heap w)
                   (ent := (actor_heap w ent)
                      \<lparr>equipment := (equipment (actor_heap w ent))(WEAPON := None)\<rparr>)\<rparr>)"
    and r: "r = Inr ()"
    by (simp_all add: DropAction_perform_def toggle_equip_def Let_def)
  have e: "equipment (actor_heap w' ent) = (equipment (actor_heap w ent))(WEAPON := None)"
    by (simp add: w' drop_item_def Let_def)
  have all: "\<forall>s. equipment (actor_heap w' ent) s \<noteq> Some it"
  proof
    fix s show "equipment (actor_heap w' ent) s \<noteq> Some it"
      using noarmor by (cases s) (simp_all add: e)
  qed
  have inv: "inv_items (inventory (actor_heap w' ent))
               = remove1 it (inv_items (inventory (actor_heap w ent)))"
    by (simp add: w' drop_item_def Let_def)
  from dist have out: "it \<notin> set (inv_items (inventory (actor_heap w' ent)))"
    by (simp add: inv)
  have ents: "ItemRef it \<in> set (entities (game_map w'))"
    by (simp add: w' drop_item_def Let_def)
  have pos: "ent_x (item_heap w' it) = ent_x (actor_heap w' ent)"
            "ent_y (item_heap w' it) = ent_y (actor_heap w' ent)"
    by (simp_all add: w' drop_item_def Let_def)
  from all have "\<not> item_is_equipped (equipment (actor_heap w' ent)) it"
    by (simp add: item_is_equipped_def)
  with r all out ents pos show ?thesis by blast
qed

theorem drop_equipped_item_witness:
  "item_is_equipped (equipment (actor_heap armed_arena 0)) 2
   \<and> inv_items (inventory (actor_heap armed_arena 0)) = [2, 3]
   \<and> fst (perform counting_floors (DropAction 0 2 (1, 1)) armed_arena) = Inr ()
   \<and> \<not> item_is_equipped
         (equipment (actor_heap (snd (perform counting_floors (DropAction 0 2 (1, 1)) armed_arena)) 0)) 2
   \<and> ItemRef 2 \<in> set (entities (game_map
         (snd (perform counting_floors (DropAction 0 2 (1, 1)) armed_arena))))
   \<and> ent_x (item_heap (snd (perform counting_floors (DropAction 0 2 (1, 1)) armed_arena)) 2)
       = ent_x (actor_heap (snd (perform counting_floors (DropAction 0 2 (1, 1)) armed_arena)) 0)
   \<and> ent_y (item_heap (snd (perform counting_floors (DropAction 0 2 (1, 1)) armed_arena)) 2)
       = ent_y (actor_heap (snd (perform counting_floors (DropAction 0 2 (1, 1)) armed_arena)) 0)
   \<and> 2 \<notin> set (inv_items (inventory
         (actor_heap (snd (perform counting_floors (DropAction 0 2 (1, 1)) armed_arena)) 0)))"
proof -
  have eqd: "item_is_equipped (equipment (actor_heap armed_arena 0)) 2"
    by (simp add: item_is_equipped_def arena_defs armed_arena_def armed_hero_def)
  have q: "equippable (item_heap armed_arena 2) = Some \<lparr>equipment_type = WEAPON\<rparr>"
    by (simp add: arena_defs armed_arena_def armed_hero_def)
  have na: "equipment_type \<lparr>equipment_type = WEAPON\<rparr> \<noteq> ARMOR"
    by simp
  have slot: "\<forall>s. equipment (actor_heap armed_arena 0) s = Some 2
                \<longrightarrow> s = equipment_type \<lparr>equipment_type = WEAPON\<rparr>"
  proof
    fix s show "equipment (actor_heap armed_arena 0) s = Some 2
                  \<longrightarrow> s = equipment_type \<lparr>equipment_type = WEAPON\<rparr>"
      by (cases s) (simp_all add: arena_defs armed_arena_def armed_hero_def)
  qed
  have inv: "inv_items (inventory (actor_heap armed_arena 0)) = [2, 3]"
    by (simp add: arena_defs armed_arena_def armed_hero_def)
  then have dist: "distinct (inv_items (inventory (actor_heap armed_arena 0)))"
    by simp
  have res: "perform counting_floors (DropAction 0 2 (1, 1)) armed_arena
               = (fst (perform counting_floors (DropAction 0 2 (1, 1)) armed_arena),
                  snd (perform counting_floors (DropAction 0 2 (1, 1)) armed_arena))"
    by simp
  from drop_equipped_item [OF eqd q na slot dist res] eqd inv show ?thesis by blast
qed

text \<open>
  C7. For every DropAction on an item that is equipped and whose category is armor: the
  action returns without raising, actors, items and the map are exactly as before (the item
  is still equipped and in the inventory), and exactly one message is added to the log, the
  warning "You cannot drop something you are wearing." in the style for invalid input.
\<close>

theorem drop_worn_armor_warns:
  assumes "item_is_equipped (equipment (actor_heap w ent)) it"
    and "equippable (item_heap w it) = Some q"
    and "equipment_type q = ARMOR"
  shows "fst (perform C (DropAction ent it target_xy) w) = Inr ()
       \<and> snd (perform C (DropAction ent it target_xy) w)
           = w\<lparr>message_log := message_log w
                  @ [(''You cannot drop something you are wearing.'', invalid)]\<rparr>
       \<and> actor_heap (snd (perform C (DropAction ent it target_xy) w)) = actor_heap w
       \<and> item_heap (snd (perform C (DropAction ent it target_xy) w)) = item_heap w
       \<and> game_map (snd (perform C (DropAction ent it target_xy) w)) = game_map w
       \<and> item_is_equipped
           (equipment (actor_heap (snd (perform C (DropAction ent it target_xy) w)) ent)) it"
  using assms by (simp add: DropAction_perform_def add_message_def)

theorem drop_worn_armor_warns_witness:
  "item_is_equipped (equipment (actor_heap armed_arena 0)) 3
   \<and> equippable (item_heap armed_arena 3) = Some \<lparr>equipment_type = ARMOR\<rparr>
   \<and> fst (perform counting_floors (DropAction 0 3 (1, 1)) armed_arena) = Inr ()
   \<and> snd (perform counting_floors (DropAction 0 3 (1, 1)) armed_arena)
       = armed_arena\<lparr>message_log := message_log armed_arena
            @ [(''You cannot drop something you are wearing.'', invalid)]\<rparr>"
proof -
  have eqd: "item_is_equipped (equipment (actor_heap armed_arena 0)) 3"
    by (simp add: item_is_equipped_def arena_defs armed_arena_def armed_hero_def)
  have q: "equippable (item_heap armed_arena 3) = Some \<lparr>equipment_type = ARMOR\<rparr>"
    by (simp add: arena_defs armed_arena_def armed_hero_def)
  have a: "equipment_type \<lparr>equipment_type = ARMOR\<rparr> = ARMOR"
    by simp
  from drop_worn_armor_warns [OF eqd q a, of counting_floors "(1, 1)"] eqd q
  show ?thesis by blast
qed

subsection \<open>TakeStairsAction\<close>

text \<open>
  C8. For every TakeStairsAction with downward = False whose actor stands on the up-stairs
  location, on a map whose two staircases are different tiles: while the floor number is 1
  it fails with Impossible, \<^verbatim>\<open>ascend_floor\<close> is not called and the engine, so the floor
  number, is unchanged; with a floor number above 1 it calls \<^verbatim>\<open>ascend_floor\<close> once and
  adds the message "You ascend the staircase.".
\<close>

theorem take_stairs_up:
  assumes up: "on_upstairs w ent"
    and apart: "upstairs_location (game_map w) \<noteq> downstairs_location (game_map w)"
  shows "(current_floor_number C w = 1 \<longrightarrow>
            perform C (TakeStairsAction ent False) w
              = (Inl (Impossible ''You have not finished your mission. You may not leave.''), w))
       \<and> (1 < current_floor_number C w \<longrightarrow>
            perform C (TakeStairsAction ent False) w
              = (Inr (), add_message ''You ascend the staircase.'' descend (ascend_floor C w)))"
proof -
  from up apart have "\<not> on_downstairs w ent"
    by (auto simp add: on_upstairs_def on_downstairs_def)
  with up show ?thesis
    by (simp add: TakeStairsAction_perform_def take_downstairs_def take_upstairs_def)
qed

theorem take_stairs_up_witness:
  "on_upstairs arena 0
   \<and> upstairs_location (game_map arena) = (1, 1)
   \<and> downstairs_location (game_map arena) = (2, 2)
   \<and> current_floor_number counting_floors arena = 1
   \<and> perform counting_floors (TakeStairsAction 0 False) arena
       = (Inl (Impossible ''You have not finished your mission. You may not leave.''), arena)
   \<and> on_upstairs arena_below 0
   \<and> current_floor_number counting_floors arena_below = 2
   \<and> perform counting_floors (TakeStairsAction 0 False) arena_below
       = (Inr (), add_message ''You ascend the staircase.'' descend
                    (ascend_floor counting_floors arena_below))
   \<and> current_floor_number counting_floors (ascend_floor counting_floors arena_below) = 1"
proof -
  have up: "on_upstairs arena 0" "on_upstairs arena_below 0"
    by (simp_all add: on_upstairs_def arena_defs arena_below_def)
  have st: "upstairs_location (game_map arena) = (1, 1)"
    "downstairs_location (game_map arena) = (2, 2)"
    "upstairs_location (game_map arena_below) = (1, 1)"
    "downstairs_location (game_map arena_below) = (2, 2)"
    by (simp_all add: arena_defs arena_below_def)
  then have apart:
    "upstairs_location (game_map arena) \<noteq> downstairs_location (game_map arena)"
    "upstairs_location (game_map arena_below) \<noteq> downstairs_location (game_map arena_below)"
    by simp_all
  have fl: "current_floor_number counting_floors arena = 1"
    "current_floor_number counting_floors arena_below = 2"
    "current_floor_number counting_floors (ascend_floor counting_floors arena_below) = 1"
    by (simp_all add: counting_floors_def arena_defs arena_below_def)
  from take_stairs_up [OF up(1) apart(1), of counting_floors] fl(1)
  have a: "perform counting_floors (TakeStairsAction 0 False) arena
       = (Inl (Impossible ''You have not finished your mission. You may not leave.''), arena)"
    by blast
  from take_stairs_up [OF up(2) apart(2), of counting_floors] fl(2)
  have b: "perform counting_floors (TakeStairsAction 0 False) arena_below
       = (Inr (), add_message ''You ascend the staircase.'' descend
                    (ascend_floor counting_floors arena_below))"
    by simp
  from up st(1,2) fl a b show ?thesis by blast
qed

end
